theory Spec2Isabelle
  imports Complex_Main "HOL-Library.AList"
begin

section \<open>Values of the Python run time\<close>

text \<open>
  A Python \<open>float\<close> is an IEEE double: a rational number, an infinity or a NaN.
  The model keeps the rational exactly. Only the truth value of a float and
  \<open>int(x)\<close> are computed on it.
\<close>

datatype pyfloat = Finite rat | PosInf | NegInf | NaN

text \<open>
  What \<open>json.load\<close> and \<open>response.json()\<close> return: \<open>None\<close>, booleans, integers
  of any size, floats, strings, lists and dictionaries with string keys. A
  dictionary is the list of its items in insertion order, which is the order
  \<open>items()\<close> iterates in.
\<close>

datatype pyval =
    PNone
  | PBool bool
  | PInt int
  | PFloat pyfloat
  | PStr string
  | PList "pyval list"
  | PDict "(string \<times> pyval) list"

text \<open>The exceptions the program can meet. Only \<open>ValidationError\<close> and \<open>KeyError\<close>
  are ever caught by name.\<close>

datatype exn = ValidationError | KeyError | AttributeError | TypeError | ValueError | OverflowError

section \<open>The record model: class \<open>Memory\<close>\<close>

record Memory =
  content :: string
  created_at :: int
  updated_at :: int
  weight :: "pyfloat option"
  model :: "string option"
  server_id :: "string option"

text \<open>
  \<open>Memory.__eq__(self, other)\<close>: \<open>other\<close> is any Python object, either a
  \<open>Memory\<close> or something else; \<open>isinstance\<close> tells them apart.
\<close>

datatype pyobj = Mem Memory | Other pyval

definition Memory_eq :: "Memory \<Rightarrow> pyobj \<Rightarrow> bool" where
  "Memory_eq self other =
     (case other of
        Other _ \<Rightarrow> False
      | Mem m \<Rightarrow> content self = content m)"

text \<open>\<open>Memory.__hash__\<close>: the hash of the content string. Python's string hash
  is salted per process, so it is a parameter.\<close>

definition Memory_hash :: "(string \<Rightarrow> int) \<Rightarrow> Memory \<Rightarrow> int" where
  "Memory_hash str_hash self = str_hash (content self)"

section \<open>The reconciler: the main block, lines 179 to 201\<close>

text \<open>
  A Python \<open>dict\<close> keyed by content, as the list of its items in insertion
  order. \<open>d[k] = v\<close> replaces the value in place when \<open>k\<close> is present and
  appends the item otherwise, which is \<open>AList.update\<close>; \<open>d.get(k)\<close> and
  \<open>k in d\<close> are \<open>map_of\<close>.
\<close>

type_synonym memdict = "(string \<times> Memory) list"

text \<open>\<open>for mem in mems: d[mem.content] = mem\<close>, from the dictionary \<open>d\<close>.\<close>

fun fold_by_content :: "Memory list \<Rightarrow> memdict \<Rightarrow> memdict" where
  "fold_by_content [] d = d"
| "fold_by_content (mem # mems) d = fold_by_content mems (AList.update (content mem) mem d)"

definition by_content :: "Memory list \<Rightarrow> memdict" where
  "by_content mems = fold_by_content mems []"

text \<open>
  The loop over \<open>server_memories_by_content.items()\<close>, with the two result lists
  as accumulators. A \<open>Memory\<close> object is always true in a condition (the class has
  neither \<open>__bool__\<close> nor \<open>__len__\<close>), so \<open>if local_mem\<close> tests that \<open>get\<close> found
  the key.
\<close>

fun server_loop :: "memdict \<Rightarrow> memdict \<Rightarrow> Memory list \<times> Memory list \<Rightarrow> Memory list \<times> Memory list" where
  "server_loop [] local_by acc = acc"
| "server_loop ((key, server_mem) # rest) local_by (to_upload, to_delete) =
     (case map_of local_by key of
        Some local_mem \<Rightarrow>
          if created_at local_mem < created_at server_mem
          then server_loop rest local_by (to_upload @ [local_mem], to_delete @ [server_mem])
          else server_loop rest local_by (to_upload, to_delete)
      | None \<Rightarrow> server_loop rest local_by (to_upload, to_delete))"

text \<open>The loop over \<open>local_memories_by_content.items()\<close>.\<close>

fun local_loop :: "memdict \<Rightarrow> memdict \<Rightarrow> Memory list \<Rightarrow> Memory list" where
  "local_loop [] server_by to_upload = to_upload"
| "local_loop ((key, local_mem) # rest) server_by to_upload =
     (if map_of server_by key = None
      then local_loop rest server_by (to_upload @ [local_mem])
      else local_loop rest server_by to_upload)"

text \<open>The variables of the main block, and the block as a state transformer.\<close>

record main_state =
  all_memories :: "Memory list"
  existing_server_memories :: "Memory list"
  server_memories_by_content :: memdict
  local_memories_by_content :: memdict
  memories_to_upload :: "Memory list"
  memories_to_delete :: "Memory list"

definition reconcile_block :: "main_state \<Rightarrow> main_state" where
  "reconcile_block st =
     (let st1 = st\<lparr>server_memories_by_content := by_content (existing_server_memories st)\<rparr>;
          st2 = st1\<lparr>local_memories_by_content := by_content (all_memories st1)\<rparr>;
          st3 = st2\<lparr>memories_to_upload := [], memories_to_delete := []\<rparr>;
          (up, del) = server_loop (server_memories_by_content st3) (local_memories_by_content st3)
                        (memories_to_upload st3, memories_to_delete st3);
          st4 = st3\<lparr>memories_to_upload := up, memories_to_delete := del\<rparr>
      in st4\<lparr>memories_to_upload :=
               local_loop (local_memories_by_content st4) (server_memories_by_content st4)
                 (memories_to_upload st4)\<rparr>)"

text \<open>The reconciler as the spec names it: from the two input lists to
  \<open>(uploads, deletions)\<close>.\<close>

definition reconcile :: "Memory list \<Rightarrow> Memory list \<Rightarrow> Memory list \<times> Memory list" where
  "reconcile local remote =
     (let st = reconcile_block \<lparr>all_memories = local, existing_server_memories = remote,
                 server_memories_by_content = [], local_memories_by_content = [],
                 memories_to_upload = [], memories_to_delete = []\<rparr>
      in (memories_to_upload st, memories_to_delete st))"

section \<open>Python built-ins on decoded JSON\<close>

text \<open>
  Library behaviour that the repository does not fix is a parameter: how the
  interpreter parses a number out of a string and rounds an integer to a
  double, and which values pydantic coerces into a field of another type (this
  differs between pydantic 1 and 2). \<open>None\<close> stands for the library's failure.
\<close>

record pylib =
  str_to_int :: "string \<Rightarrow> int option"
  str_to_float :: "string \<Rightarrow> pyfloat option"
  int_to_float :: "int \<Rightarrow> pyfloat option"
  coerce_str :: "pyval \<Rightarrow> string option"
  coerce_int :: "pyval \<Rightarrow> int option"
  coerce_float :: "pyval \<Rightarrow> pyfloat option"

text \<open>Sequencing: an exception raised by the first step ends the computation.\<close>

definition bind_exn :: "exn + 'a \<Rightarrow> ('a \<Rightarrow> exn + 'b) \<Rightarrow> exn + 'b" where
  "bind_exn r f = (case r of Inl e \<Rightarrow> Inl e | Inr x \<Rightarrow> f x)"

text \<open>The truth value of an object in a condition.\<close>

fun truthy :: "pyval \<Rightarrow> bool" where
  "truthy PNone = False"
| "truthy (PBool b) = b"
| "truthy (PInt n) = (n \<noteq> 0)"
| "truthy (PFloat f) = (f \<noteq> Finite 0)"
| "truthy (PStr s) = (s \<noteq> [])"
| "truthy (PList xs) = (xs \<noteq> [])"
| "truthy (PDict d) = (d \<noteq> [])"

text \<open>\<open>x.get(key, default)\<close>: only a dictionary has the method.\<close>

fun dict_get :: "pyval \<Rightarrow> string \<Rightarrow> pyval \<Rightarrow> exn + pyval" where
  "dict_get (PDict d) key dflt = Inr (case map_of d key of Some v \<Rightarrow> v | None \<Rightarrow> dflt)"
| "dict_get _ key dflt = Inl AttributeError"

text \<open>\<open>x.items()\<close>.\<close>

fun dict_items :: "pyval \<Rightarrow> exn + (string \<times> pyval) list" where
  "dict_items (PDict d) = Inr d"
| "dict_items _ = Inl AttributeError"

text \<open>\<open>x[key]\<close> with a string key: a missing key of a dictionary is a
  \<open>KeyError\<close>, and no other JSON value can be indexed by a string.\<close>

fun subscript :: "pyval \<Rightarrow> string \<Rightarrow> exn + pyval" where
  "subscript (PDict d) key = (case map_of d key of Some v \<Rightarrow> Inr v | None \<Rightarrow> Inl KeyError)"
| "subscript _ key = Inl TypeError"

text \<open>What a \<open>for\<close> loop iterates over: the elements of a list, the keys of a
  dictionary, the characters of a string.\<close>

fun py_iter :: "pyval \<Rightarrow> exn + pyval list" where
  "py_iter (PList xs) = Inr xs"
| "py_iter (PDict d) = Inr (map (\<lambda>kv. PStr (fst kv)) d)"
| "py_iter (PStr s) = Inr (map (\<lambda>c. PStr [c]) s)"
| "py_iter _ = Inl TypeError"

text \<open>\<open>sep.join(x)\<close>: every element must be a string.\<close>

fun join_strs :: "string \<Rightarrow> string list \<Rightarrow> string" where
  "join_strs sep [] = []"
| "join_strs sep [x] = x"
| "join_strs sep (x # y # ys) = x @ sep @ join_strs sep (y # ys)"

fun strs_of :: "pyval list \<Rightarrow> string list option" where
  "strs_of [] = Some []"
| "strs_of (PStr s # vs) = (case strs_of vs of Some ss \<Rightarrow> Some (s # ss) | None \<Rightarrow> None)"
| "strs_of (_ # vs) = None"

definition str_join :: "string \<Rightarrow> pyval \<Rightarrow> exn + string" where
  "str_join sep x =
     (case py_iter x of
        Inl e \<Rightarrow> Inl e
      | Inr vs \<Rightarrow> (case strs_of vs of
                    Some ss \<Rightarrow> Inr (join_strs sep ss)
                  | None \<Rightarrow> Inl TypeError))"

text \<open>\<open>int(x)\<close>: a float is cut towards zero; a NaN is a \<open>ValueError\<close> and an
  infinity an \<open>OverflowError\<close>.\<close>

definition trunc_rat :: "rat \<Rightarrow> int" where
  "trunc_rat q = (if q < 0 then - \<lfloor>- q\<rfloor> else \<lfloor>q\<rfloor>)"

fun py_int :: "pylib \<Rightarrow> pyval \<Rightarrow> exn + int" where
  "py_int lib (PInt n) = Inr n"
| "py_int lib (PBool b) = Inr (if b then 1 else 0)"
| "py_int lib (PFloat (Finite q)) = Inr (trunc_rat q)"
| "py_int lib (PFloat NaN) = Inl ValueError"
| "py_int lib (PFloat _) = Inl OverflowError"
| "py_int lib (PStr s) = (case str_to_int lib s of Some n \<Rightarrow> Inr n | None \<Rightarrow> Inl ValueError)"
| "py_int lib _ = Inl TypeError"

text \<open>\<open>float(x)\<close>.\<close>

fun py_float :: "pylib \<Rightarrow> pyval \<Rightarrow> exn + pyfloat" where
  "py_float lib (PFloat f) = Inr f"
| "py_float lib (PInt n) = (case int_to_float lib n of Some f \<Rightarrow> Inr f | None \<Rightarrow> Inl OverflowError)"
| "py_float lib (PBool b) = Inr (Finite (if b then 1 else 0))"
| "py_float lib (PStr s) = (case str_to_float lib s of Some f \<Rightarrow> Inr f | None \<Rightarrow> Inl ValueError)"
| "py_float lib _ = Inl TypeError"

section \<open>Constructing a \<open>Memory\<close>: pydantic's validation\<close>

text \<open>
  A value of the field's own type is taken as it is; \<open>None\<close>, a list and a
  dictionary are rejected by a \<open>str\<close>, \<open>int\<close> or \<open>float\<close> field; for the other
  values the library decides. A field of type \<open>T | None\<close> takes \<open>None\<close>.
\<close>

fun validate_str :: "pylib \<Rightarrow> pyval \<Rightarrow> string option" where
  "validate_str lib (PStr s) = Some s"
| "validate_str lib PNone = None"
| "validate_str lib (PList xs) = None"
| "validate_str lib (PDict d) = None"
| "validate_str lib v = coerce_str lib v"

fun validate_int :: "pylib \<Rightarrow> pyval \<Rightarrow> int option" where
  "validate_int lib (PInt n) = Some n"
| "validate_int lib PNone = None"
| "validate_int lib (PList xs) = None"
| "validate_int lib (PDict d) = None"
| "validate_int lib v = coerce_int lib v"

fun validate_float :: "pylib \<Rightarrow> pyval \<Rightarrow> pyfloat option" where
  "validate_float lib (PFloat f) = Some f"
| "validate_float lib PNone = None"
| "validate_float lib (PList xs) = None"
| "validate_float lib (PDict d) = None"
| "validate_float lib v = coerce_float lib v"

definition validate_optional :: "(pyval \<Rightarrow> 'a option) \<Rightarrow> pyval \<Rightarrow> 'a option option" where
  "validate_optional validate v =
     (if v = PNone then Some None
      else (case validate v of Some x \<Rightarrow> Some (Some x) | None \<Rightarrow> None))"

text \<open>\<open>Memory(content=..., created_at=..., ...)\<close>: \<open>None\<close> is a
  \<open>ValidationError\<close>.\<close>

definition Memory_init ::
  "pylib \<Rightarrow> pyval \<Rightarrow> pyval \<Rightarrow> pyval \<Rightarrow> pyval \<Rightarrow> pyval \<Rightarrow> pyval \<Rightarrow> Memory option" where
  "Memory_init lib content_arg created_arg updated_arg weight_arg model_arg id_arg =
     (case (validate_str lib content_arg, validate_int lib created_arg,
            validate_int lib updated_arg, validate_optional (validate_float lib) weight_arg,
            validate_optional (validate_str lib) model_arg,
            validate_optional (validate_str lib) id_arg) of
        (Some c, Some ca, Some ua, Some w, Some m, Some sid) \<Rightarrow>
          Some \<lparr>content = c, created_at = ca, updated_at = ua,
                weight = w, model = m, server_id = sid\<rparr>
      | _ \<Rightarrow> None)"

section \<open>The extractor: \<open>process_conversation\<close>\<close>

text \<open>
  The wall clock: \<open>clock n\<close> is what the \<open>n\<close>-th evaluation of
  \<open>int(time.time())\<close> returns, and the functions below count the evaluations.

  Lines 79 to 97 for one message whose recipient is \<open>bio\<close>. The result
  \<open>Inr (None, t)\<close> is the \<open>ValidationError\<close> caught at line 95; \<open>Inl e\<close> is an
  exception that nothing in the function catches.
\<close>

definition time_field :: "pylib \<Rightarrow> (nat \<Rightarrow> int) \<Rightarrow> nat \<Rightarrow> pyval \<Rightarrow> exn + (int \<times> nat)" where
  "time_field lib clock t v =
     (if truthy v
      then (case py_int lib v of Inl e \<Rightarrow> Inl e | Inr n \<Rightarrow> Inr (n, t))
      else Inr (clock t, Suc t))"

definition weight_field :: "pylib \<Rightarrow> pyval \<Rightarrow> exn + pyval" where
  "weight_field lib v =
     (if v \<noteq> PNone
      then (case py_float lib v of Inl e \<Rightarrow> Inl e | Inr f \<Rightarrow> Inr (PFloat f))
      else Inr PNone)"

definition bio_memory ::
  "pylib \<Rightarrow> (nat \<Rightarrow> int) \<Rightarrow> nat \<Rightarrow> pyval \<Rightarrow> exn + (Memory option \<times> nat)" where
  "bio_memory lib clock t message =
     bind_exn (dict_get message ''content'' (PDict [])) (\<lambda>content_obj.
     bind_exn (dict_get content_obj ''parts'' (PList [])) (\<lambda>memory_content_list.
     bind_exn (str_join [CHR 10] memory_content_list) (\<lambda>memory_content.
     bind_exn (dict_get message ''create_time'' PNone) (\<lambda>create_time.
     bind_exn (dict_get message ''update_time'' PNone) (\<lambda>update_time.
     bind_exn (dict_get message ''weight'' PNone) (\<lambda>weight_val.
     bind_exn (dict_get message ''metadata'' (PDict [])) (\<lambda>metadata.
     bind_exn (dict_get metadata ''model_slug'' PNone) (\<lambda>model_val.
     bind_exn (time_field lib clock t create_time) (\<lambda>(created, t1).
     bind_exn (time_field lib clock t1 update_time) (\<lambda>(updated, t2).
     bind_exn (weight_field lib weight_val) (\<lambda>weight_arg.
       Inr (Memory_init lib (PStr memory_content) (PInt created) (PInt updated) weight_arg
              (if truthy model_val then model_val else PNone) PNone, t2))))))))))))"

text \<open>The body of the loop at line 71 for one item of the mapping: \<open>None\<close> when
  the item adds no record.\<close>

definition process_item ::
  "pylib \<Rightarrow> (nat \<Rightarrow> int) \<Rightarrow> nat \<Rightarrow> string \<times> pyval \<Rightarrow> exn + (Memory option \<times> nat)" where
  "process_item lib clock t item =
     (let msg_data = snd item in
      if \<not> truthy msg_data then Inr (None, t)
      else bind_exn (dict_get msg_data ''message'' PNone) (\<lambda>message.
        if \<not> truthy message then Inr (None, t)
        else bind_exn (dict_get message ''recipient'' PNone) (\<lambda>recipient.
          if recipient = PStr ''bio'' then bio_memory lib clock t message
          else Inr (None, t))))"

fun process_items ::
  "pylib \<Rightarrow> (nat \<Rightarrow> int) \<Rightarrow> (string \<times> pyval) list \<Rightarrow> Memory list \<times> nat \<Rightarrow> exn + (Memory list \<times> nat)" where
  "process_items lib clock [] acc = Inr acc"
| "process_items lib clock (item # rest) (memories, t) =
     (case process_item lib clock t item of
        Inl e \<Rightarrow> Inl e
      | Inr (None, t') \<Rightarrow> process_items lib clock rest (memories, t')
      | Inr (Some memory, t') \<Rightarrow> process_items lib clock rest (memories @ [memory], t'))"

text \<open>\<open>process_conversation(convo)\<close>: the pair \<open>(memories, len(mapping))\<close>, and
  the number of clock readings so far.\<close>

definition process_conversation ::
  "pylib \<Rightarrow> (nat \<Rightarrow> int) \<Rightarrow> nat \<Rightarrow> pyval \<Rightarrow> exn + ((Memory list \<times> nat) \<times> nat)" where
  "process_conversation lib clock t convo =
     bind_exn (dict_get convo ''mapping'' (PDict [])) (\<lambda>mapping.
     bind_exn (dict_items mapping) (\<lambda>items.
     bind_exn (process_items lib clock items ([], t)) (\<lambda>(memories, t').
       Inr ((memories, length items), t'))))"

section \<open>The remote records: \<open>fetch_open_webui_memories\<close>\<close>

text \<open>
  The function from the decoded body of the response on (the request itself is
  outside the model). One object of the body, lines 109 to 121: \<open>Inr (None, t)\<close>
  is a \<open>ValidationError\<close> or \<open>KeyError\<close>, both caught at line 119. The default
  of each of the two \<open>get\<close> calls reads the clock whether or not it is used.
\<close>

definition remote_memory ::
  "pylib \<Rightarrow> (nat \<Rightarrow> int) \<Rightarrow> nat \<Rightarrow> pyval \<Rightarrow> exn + (Memory option \<times> nat)" where
  "remote_memory lib clock t memory_data =
     (case subscript memory_data ''content'' of
        Inl e \<Rightarrow> if e = KeyError then Inr (None, t) else Inl e
      | Inr content_val \<Rightarrow>
          bind_exn (dict_get memory_data ''created_at'' (PInt (clock t))) (\<lambda>created.
          bind_exn (dict_get memory_data ''updated_at'' (PInt (clock (Suc t)))) (\<lambda>updated.
          bind_exn (dict_get memory_data ''weight'' PNone) (\<lambda>weight_val.
          bind_exn (dict_get memory_data ''model'' PNone) (\<lambda>model_val.
          bind_exn (dict_get memory_data ''id'' PNone) (\<lambda>id_val.
            Inr (Memory_init lib content_val created updated weight_val model_val id_val,
                 Suc (Suc t))))))))"

fun remote_loop ::
  "pylib \<Rightarrow> (nat \<Rightarrow> int) \<Rightarrow> pyval list \<Rightarrow> Memory list \<times> nat \<Rightarrow> exn + (Memory list \<times> nat)" where
  "remote_loop lib clock [] acc = Inr acc"
| "remote_loop lib clock (memory_data # rest) (memories, t) =
     (case remote_memory lib clock t memory_data of
        Inl e \<Rightarrow> Inl e
      | Inr (None, t') \<Rightarrow> remote_loop lib clock rest (memories, t')
      | Inr (Some memory, t') \<Rightarrow> remote_loop lib clock rest (memories @ [memory], t'))"

definition fetch_open_webui_memories ::
  "pylib \<Rightarrow> (nat \<Rightarrow> int) \<Rightarrow> nat \<Rightarrow> pyval \<Rightarrow> exn + (Memory list \<times> nat)" where
  "fetch_open_webui_memories lib clock t memories_data =
     (case py_iter memories_data of
        Inl e \<Rightarrow> Inl e
      | Inr objs \<Rightarrow> remote_loop lib clock objs ([], t))"

section \<open>Closed forms used in the proofs\<close>

text \<open>The last record of a list that has the content \<open>c\<close>, if there is one.\<close>

definition last_with :: "string \<Rightarrow> Memory list \<Rightarrow> Memory option" where
  "last_with c mems =
     (case filter (\<lambda>m. content m = c) mems of [] \<Rightarrow> None | ys \<Rightarrow> Some (last ys))"

text \<open>The pairs \<open>(local_mem, server_mem)\<close> that the first loop appends, in order.\<close>

definition stale_pairs :: "memdict \<Rightarrow> memdict \<Rightarrow> (Memory \<times> Memory) list" where
  "stale_pairs server_by local_by =
     List.map_filter (\<lambda>(key, server_mem).
        case map_of local_by key of
          Some local_mem \<Rightarrow>
            if created_at local_mem < created_at server_mem
            then Some (local_mem, server_mem) else None
        | None \<Rightarrow> None) server_by"

text \<open>The test of the first loop on one item of the server dictionary.\<close>

definition is_stale :: "memdict \<Rightarrow> string \<times> Memory \<Rightarrow> bool" where
  "is_stale local_by = (\<lambda>(key, server_mem).
     case map_of local_by key of
       Some local_mem \<Rightarrow> created_at local_mem < created_at server_mem
     | None \<Rightarrow> False)"

text \<open>
  The specification's words for a content \<open>c\<close>: it is \<^emph>\<open>matched\<close> when both
  collections hold a record with it, and \<^emph>\<open>stale\<close> when moreover the record
  retained for it on the local side (the last one in the list) was created
  strictly before the record retained for it on the remote side.
\<close>

definition stale :: "Memory list \<Rightarrow> Memory list \<Rightarrow> string \<Rightarrow> bool" where
  "stale local remote c =
     (case last_with c local of
        None \<Rightarrow> False
      | Some l \<Rightarrow> (case last_with c remote of
                     None \<Rightarrow> False
                   | Some s \<Rightarrow> created_at l < created_at s))"

section \<open>Example data: the scenarios of the specification\<close>

definition tea_local :: "int \<Rightarrow> Memory" where
  "tea_local t = \<lparr>content = ''likes tea'', created_at = t, updated_at = t,
                   weight = None, model = None, server_id = None\<rparr>"

definition tea_remote :: "int \<Rightarrow> Memory" where
  "tea_remote t = \<lparr>content = ''likes tea'', created_at = t, updated_at = t,
                    weight = None, model = None, server_id = Some ''s1''\<rparr>"

definition obsolete_remote :: Memory where
  "obsolete_remote = \<lparr>content = ''obsolete fact'', created_at = 10, updated_at = 10,
                       weight = None, model = None, server_id = Some ''s9''\<rparr>"

text \<open>Two states of the main block with the same inputs: one with fresh working
  variables, one with leftovers in them.\<close>

definition clean_state :: main_state where
  "clean_state = \<lparr>all_memories = [tea_local 50], existing_server_memories = [tea_remote 100],
                   server_memories_by_content = [], local_memories_by_content = [],
                   memories_to_upload = [], memories_to_delete = []\<rparr>"

definition dirty_state :: main_state where
  "dirty_state = \<lparr>all_memories = [tea_local 50], existing_server_memories = [tea_remote 100],
                   server_memories_by_content = [(''obsolete fact'', obsolete_remote)],
                   local_memories_by_content = [],
                   memories_to_upload = [obsolete_remote], memories_to_delete = [obsolete_remote]\<rparr>"

text \<open>
  A library instance for evaluating the examples: it reads a non-empty string
  of decimal digits as a number, and refuses every other string and every
  coercion. The examples use no value on which CPython or pydantic would
  answer differently.
\<close>

fun parse_digits :: "string \<Rightarrow> int \<Rightarrow> int option" where
  "parse_digits [] acc = Some acc"
| "parse_digits (c # cs) acc =
     (let n = (of_char c :: nat) in
      if 48 \<le> n \<and> n \<le> 57 then parse_digits cs (10 * acc + int n - 48) else None)"

definition example_lib :: pylib where
  "example_lib = \<lparr>str_to_int = (\<lambda>s. if s = [] then None else parse_digits s 0),
                   str_to_float = (\<lambda>s. None),
                   int_to_float = (\<lambda>n. Some (Finite (of_int n))),
                   coerce_str = (\<lambda>v. None),
                   coerce_int = (\<lambda>v. None),
                   coerce_float = (\<lambda>v. None)\<rparr>"

text \<open>A clock for the examples: one second per reading.\<close>

definition example_clock :: "nat \<Rightarrow> int" where
  "example_clock n = 1700000000 + int n"

text \<open>A node of a conversation's mapping holding a message to \<open>bio\<close> with the
  given parts and further message fields.\<close>

definition bio_node :: "pyval \<Rightarrow> (string \<times> pyval) list \<Rightarrow> pyval" where
  "bio_node parts extra =
     PDict [(''message'', PDict ([(''recipient'', PStr ''bio''),
                                  (''content'', PDict [(''parts'', parts)])] @ extra))]"

definition empty_parts_convo :: pyval where
  "empty_parts_convo = PDict [(''mapping'', PDict [(''m1'', bio_node (PList []) [])])]"

definition tea_convo :: pyval where
  "tea_convo = PDict [(''mapping'', PDict [
      (''m1'', bio_node (PList [PStr ''likes tea'']) [(''create_time'', PInt 50), (''update_time'', PInt 50)])])]"

definition bad_time_convo :: pyval where
  "bad_time_convo = PDict [(''mapping'', PDict [
      (''m1'', bio_node (PList [PStr ''likes tea'']) [(''create_time'', PInt 50), (''update_time'', PInt 50)]),
      (''m2'', bio_node (PList [PStr ''has a cat'']) [(''create_time'', PStr ''2024-05-01''), (''update_time'', PInt 60)])])]"

definition bad_model_convo :: pyval where
  "bad_model_convo = PDict [(''mapping'', PDict [
      (''m1'', bio_node (PList [PStr ''likes tea'']) [(''create_time'', PInt 50), (''update_time'', PInt 50)]),
      (''m2'', bio_node (PList [PStr ''has a cat'']) [(''create_time'', PInt 60), (''update_time'', PInt 60),
                 (''metadata'', PDict [(''model_slug'', PList [PStr ''gpt-4''])])]),
      (''m3'', bio_node (PList [PStr ''owns'', PStr ''a bike'']) [(''create_time'', PInt 70), (''update_time'', PInt 70)])])]"

definition remote_without_id :: pyval where
  "remote_without_id = PList [PDict [(''content'', PStr ''likes tea''), (''created_at'', PInt 100),
                                     (''updated_at'', PInt 100)]]"

text \<open>Two remote objects that carry an \<open>id\<close>, and a response body holding both.\<close>

definition tea_object :: pyval where
  "tea_object = PDict [(''id'', PStr ''s1''), (''content'', PStr ''likes tea''),
                       (''created_at'', PInt 100), (''updated_at'', PInt 100)]"

definition obsolete_object :: pyval where
  "obsolete_object = PDict [(''id'', PStr ''s9''), (''content'', PStr ''obsolete fact''),
                            (''created_at'', PInt 10), (''updated_at'', PInt 10)]"

definition remote_two_objects :: pyval where
  "remote_two_objects = PList [tea_object, obsolete_object]"

section \<open>The content-keyed fold\<close>

lemma map_of_fold_by_content:
  "map_of (fold_by_content mems d) c =
     (case last_with c mems of None \<Rightarrow> map_of d c | Some m \<Rightarrow> Some m)"
proof (induction mems arbitrary: d)
  case Nil
  show ?case by (simp add: last_with_def)
next
  case (Cons m mems)
  show ?case
    by (simp add: Cons.IH AList.update_conv' last_with_def split: list.splits)
qed

lemma distinct_fold_by_content:
  "distinct (map fst d) \<Longrightarrow> distinct (map fst (fold_by_content mems d))"
  by (induction mems arbitrary: d) (simp_all add: AList.distinct_update)

lemma keys_fold_by_content:
  "fst ` set (fold_by_content mems d) = fst ` set d \<union> content ` set mems"
  by (induction mems arbitrary: d) (auto simp add: AList.dom_update)

lemma keyed_update:
  "\<forall>(k, v) \<in> set d. content v = k \<Longrightarrow>
   \<forall>(k, v) \<in> set (AList.update (content m) m d). content v = k"
  by (induction d) auto

lemma keyed_fold_by_content:
  "\<forall>(k, v) \<in> set d. content v = k \<Longrightarrow> \<forall>(k, v) \<in> set (fold_by_content mems d). content v = k"
proof (induction mems arbitrary: d)
  case Nil
  then show ?case by simp
next
  case (Cons m mems)
  show ?case using Cons.IH[OF keyed_update[OF Cons.prems]] by simp
qed

lemma remdups_snoc: "remdups (ys @ [k]) = remdups (filter (\<lambda>x. x \<noteq> k) ys) @ [k]"
  by (induction ys) auto

lemma key_order_fold:
  "map fst (fold_by_content mems d) =
     map fst d @ rev (remdups (rev (filter (\<lambda>c. c \<notin> fst ` set d) (map content mems))))"
proof (induction mems arbitrary: d)
  case Nil
  show ?case by simp
next
  case (Cons m mems)
  show ?case
  proof (cases "content m \<in> fst ` set d")
    case True
    then show ?thesis
      by (simp add: Cons.IH AList.update_keys AList.dom_update insert_absorb)
  next
    case False
    then show ?thesis
      by (simp add: Cons.IH AList.update_keys AList.dom_update remdups_snoc rev_filter
            conj_commute)
  qed
qed

lemma map_of_by_content: "map_of (by_content mems) c = last_with c mems"
  by (simp add: by_content_def map_of_fold_by_content split: option.splits)

lemma distinct_by_content: "distinct (map fst (by_content mems))"
  by (simp add: by_content_def distinct_fold_by_content)

lemma keys_by_content: "fst ` set (by_content mems) = content ` set mems"
  by (simp add: by_content_def keys_fold_by_content)

lemma keyed_by_content: "(k, v) \<in> set (by_content mems) \<Longrightarrow> content v = k"
  using keyed_fold_by_content[of "[]" mems] by (auto simp add: by_content_def)

lemma in_by_content: "(k, v) \<in> set (by_content mems) \<longleftrightarrow> map_of (by_content mems) k = Some v"
  using distinct_by_content by (auto dest: map_of_SomeD)

lemma get_by_content_key: "map_of (by_content mems) k = Some v \<Longrightarrow> content v = k"
  by (auto dest: map_of_SomeD keyed_by_content)

lemma get_by_content_None: "map_of (by_content mems) k = None \<longleftrightarrow> k \<notin> content ` set mems"
  by (simp add: map_of_eq_None_iff keys_by_content)

section \<open>The two loops in closed form\<close>

lemma server_loop_closed:
  "server_loop items local_by (up, del) =
     (up @ map fst (stale_pairs items local_by), del @ map snd (stale_pairs items local_by))"
  by (induction items local_by "(up, del)" arbitrary: up del rule: server_loop.induct)
     (auto simp add: stale_pairs_def List.map_filter_simps split: option.splits)

lemma local_loop_closed:
  "local_loop items server_by up =
     up @ map snd (filter (\<lambda>(key, m). map_of server_by key = None) items)"
  by (induction items server_by up rule: local_loop.induct) auto

lemma reconcile_closed:
  "reconcile local remote =
     (map fst (stale_pairs (by_content remote) (by_content local))
        @ map snd (filter (\<lambda>(key, m). map_of (by_content remote) key = None) (by_content local)),
      map snd (stale_pairs (by_content remote) (by_content local)))"
  by (simp add: reconcile_def reconcile_block_def Let_def server_loop_closed local_loop_closed)

lemma set_stale_pairs:
  "(l, s) \<in> set (stale_pairs sb lb) \<longleftrightarrow>
     (\<exists>k. (k, s) \<in> set sb \<and> map_of lb k = Some l \<and> created_at l < created_at s)"
  by (induction sb)
     (auto simp add: stale_pairs_def List.map_filter_simps split: option.splits if_splits)

lemma in_uploads:
  "m \<in> set (fst (reconcile local remote)) \<longleftrightarrow>
     map_of (by_content local) (content m) = Some m \<and>
     (case map_of (by_content remote) (content m) of
        None \<Rightarrow> True
      | Some s \<Rightarrow> created_at m < created_at s)"
  (is "?L \<longleftrightarrow> ?R")
proof
  assume ?L
  then consider s where "(m, s) \<in> set (stale_pairs (by_content remote) (by_content local))"
    | k where "(k, m) \<in> set (by_content local)" "map_of (by_content remote) k = None"
    by (auto simp add: reconcile_closed)
  then show ?R
  proof cases
    case 1
    then obtain k where k: "(k, s) \<in> set (by_content remote)"
        "map_of (by_content local) k = Some m" "created_at m < created_at s"
      by (auto simp add: set_stale_pairs)
    from k(2) have "content m = k" by (rule get_by_content_key)
    with k show ?thesis by (simp add: in_by_content)
  next
    case 2
    from 2(1) have "content m = k" by (rule keyed_by_content)
    with 2 show ?thesis by (simp add: in_by_content)
  qed
next
  assume R: ?R
  show ?L
  proof (cases "map_of (by_content remote) (content m)")
    case None
    with R have "(content m, m) \<in> set (by_content local)" by (simp add: in_by_content)
    with None show ?thesis by (force simp add: reconcile_closed)
  next
    case (Some s)
    with R have "(m, s) \<in> set (stale_pairs (by_content remote) (by_content local))"
      by (auto simp add: set_stale_pairs in_by_content)
    then show ?thesis by (force simp add: reconcile_closed)
  qed
qed

lemma in_deletions:
  "s \<in> set (snd (reconcile local remote)) \<longleftrightarrow>
     map_of (by_content remote) (content s) = Some s \<and>
     (\<exists>l. map_of (by_content local) (content s) = Some l \<and> created_at l < created_at s)"
  (is "?L \<longleftrightarrow> ?R")
proof
  assume ?L
  then obtain l k where k: "(k, s) \<in> set (by_content remote)"
      "map_of (by_content local) k = Some l" "created_at l < created_at s"
    by (auto simp add: reconcile_closed set_stale_pairs)
  from k(1) have "content s = k" by (rule keyed_by_content)
  with k show ?R by (auto simp add: in_by_content)
next
  assume ?R
  then obtain l where "(l, s) \<in> set (stale_pairs (by_content remote) (by_content local))"
    by (auto simp add: set_stale_pairs in_by_content)
  then show ?L by (force simp add: reconcile_closed)
qed

section \<open>The reconciler's properties\<close>

text \<open>
  C1. Take a content key \<open>c\<close> held by both content-keyed maps, with the server
  record \<open>server_mem\<close> and the local record \<open>local_mem\<close>. When the local
  \<open>created_at\<close> is strictly less than the server's, the server record is in the
  deletions and the local record is in the uploads. When the local \<open>created_at\<close>
  is greater than or equal to the server's, neither list holds any record with
  the content \<open>c\<close>: nothing is done for the pair.
\<close>

theorem reconcile_matched_pair:
  assumes "map_of (by_content remote) c = Some server_mem"
    and "map_of (by_content local) c = Some local_mem"
  shows "(created_at local_mem < created_at server_mem \<longrightarrow>
            server_mem \<in> set (snd (reconcile local remote)) \<and>
            local_mem \<in> set (fst (reconcile local remote))) \<and>
         (created_at server_mem \<le> created_at local_mem \<longrightarrow>
            (\<forall>m \<in> set (snd (reconcile local remote)). content m \<noteq> c) \<and>
            (\<forall>m \<in> set (fst (reconcile local remote)). content m \<noteq> c))"
proof -
  have cs: "content server_mem = c" and cl: "content local_mem = c"
    using assms by (auto dest: get_by_content_key)
  show ?thesis
    using assms cs cl by (auto simp add: in_uploads in_deletions)
qed

theorem reconcile_matched_pair_witness:
  "(map_of (by_content [tea_remote 100]) ''likes tea'' = Some (tea_remote 100) \<and>
    map_of (by_content [tea_local 50]) ''likes tea'' = Some (tea_local 50) \<and>
    created_at (tea_local 50) < created_at (tea_remote 100) \<and>
    tea_remote 100 \<in> set (snd (reconcile [tea_local 50] [tea_remote 100])) \<and>
    tea_local 50 \<in> set (fst (reconcile [tea_local 50] [tea_remote 100]))) \<and>
   (map_of (by_content [tea_remote 100]) ''likes tea'' = Some (tea_remote 100) \<and>
    map_of (by_content [tea_local 200]) ''likes tea'' = Some (tea_local 200) \<and>
    created_at (tea_remote 100) \<le> created_at (tea_local 200) \<and>
    tea_remote 100 \<notin> set (snd (reconcile [tea_local 200] [tea_remote 100])) \<and>
    tea_local 200 \<notin> set (fst (reconcile [tea_local 200] [tea_remote 100])))"
proof -
  have a: "map_of (by_content [tea_remote 100]) ''likes tea'' = Some (tea_remote 100)"
    by (simp add: by_content_def tea_remote_def)
  have b: "map_of (by_content [tea_local 50]) ''likes tea'' = Some (tea_local 50)"
    by (simp add: by_content_def tea_local_def)
  have c: "map_of (by_content [tea_local 200]) ''likes tea'' = Some (tea_local 200)"
    by (simp add: by_content_def tea_local_def)
  have d: "created_at (tea_local 50) < created_at (tea_remote 100)"
    "created_at (tea_remote 100) \<le> created_at (tea_local 200)"
    by (simp_all add: tea_local_def tea_remote_def)
  have e: "content (tea_remote 100) = ''likes tea''" "content (tea_local 200) = ''likes tea''"
    by (simp_all add: tea_local_def tea_remote_def)
  from reconcile_matched_pair[OF a b] reconcile_matched_pair[OF a c] a b c d e
  show ?thesis by blast
qed

text \<open>
  C9. Every record of the deletions list has a replacement in the uploads
  list: a record with the same content.
\<close>

theorem deletions_paired:
  "d \<in> set (snd (reconcile local remote)) \<Longrightarrow>
     \<exists>u \<in> set (fst (reconcile local remote)). content u = content d"
proof -
  assume "d \<in> set (snd (reconcile local remote))"
  then obtain l where l: "map_of (by_content remote) (content d) = Some d"
     "map_of (by_content local) (content d) = Some l" "created_at l < created_at d"
    by (auto simp add: in_deletions)
  from l(2) have "content l = content d" by (rule get_by_content_key)
  with l have "l \<in> set (fst (reconcile local remote))" by (simp add: in_uploads)
  with \<open>content l = content d\<close> show ?thesis by blast
qed

theorem deletions_paired_witness:
  "tea_remote 100 \<in> set (snd (reconcile [tea_local 50] [tea_remote 100])) \<and>
   (\<exists>u \<in> set (fst (reconcile [tea_local 50] [tea_remote 100])).
      content u = content (tea_remote 100))"
proof -
  have "tea_remote 100 \<in> set (snd (reconcile [tea_local 50] [tea_remote 100]))"
    by (simp add: reconcile_def reconcile_block_def by_content_def tea_local_def tea_remote_def)
  then show ?thesis using deletions_paired by blast
qed


section \<open>One action per content\<close>

lemma stale_pairs_snd: "map snd (stale_pairs sb lb) = map snd (filter (is_stale lb) sb)"
  by (induction sb)
     (auto simp add: stale_pairs_def is_stale_def List.map_filter_simps split: option.splits if_splits)

lemma stale_pairs_fst_content:
  "(\<And>k l. map_of lb k = Some l \<Longrightarrow> content l = k) \<Longrightarrow>
   map content (map fst (stale_pairs sb lb)) = map fst (filter (is_stale lb) sb)"
  by (induction sb)
     (auto simp add: stale_pairs_def is_stale_def List.map_filter_simps split: option.splits if_splits)

lemma keyed_map_content:
  "(\<And>k v. (k, v) \<in> set xs \<Longrightarrow> content v = k) \<Longrightarrow> map content (map snd xs) = map fst xs"
  by (induction xs) auto

lemma deletions_contents:
  "map content (snd (reconcile local remote)) = map fst (filter (is_stale (by_content local)) (by_content remote))"
proof -
  have "map content (map snd (filter (is_stale (by_content local)) (by_content remote)))
      = map fst (filter (is_stale (by_content local)) (by_content remote))"
    by (rule keyed_map_content) (auto dest: keyed_by_content)
  then show ?thesis
    by (simp add: reconcile_closed stale_pairs_snd del: map_map)
qed

lemma uploads_contents:
  "map content (fst (reconcile local remote)) =
     map fst (filter (is_stale (by_content local)) (by_content remote))
     @ map fst (filter (\<lambda>(key, m). map_of (by_content remote) key = None) (by_content local))"
proof -
  have "map content (map snd (filter (\<lambda>(key, m). map_of (by_content remote) key = None) (by_content local)))
      = map fst (filter (\<lambda>(key, m). map_of (by_content remote) key = None) (by_content local))"
    by (rule keyed_map_content) (auto dest: keyed_by_content)
  then show ?thesis
    by (simp add: reconcile_closed stale_pairs_fst_content get_by_content_key del: map_map)
qed

text \<open>
  C10. The uploads list holds no two records with the same content, and neither
  does the deletions list.
\<close>

theorem one_action_per_content:
  "distinct (map content (fst (reconcile local remote))) \<and>
   distinct (map content (snd (reconcile local remote)))"
proof -
  have d1: "distinct (map fst (filter (is_stale (by_content local)) (by_content remote)))"
    by (rule distinct_map_filter) (rule distinct_by_content)
  have d2: "distinct (map fst (filter (\<lambda>(key, m). map_of (by_content remote) key = None) (by_content local)))"
    by (rule distinct_map_filter) (rule distinct_by_content)
  have d3: "set (map fst (filter (is_stale (by_content local)) (by_content remote)))
      \<inter> set (map fst (filter (\<lambda>(key, m). map_of (by_content remote) key = None) (by_content local))) = {}"
    by (force simp add: map_of_eq_None_iff)
  show ?thesis
    using d1 d2 d3 by (simp add: uploads_contents deletions_contents)
qed


section \<open>The partition of the records\<close>

lemma last_with_None: "last_with c mems = None \<longleftrightarrow> c \<notin> content ` set mems"
  using get_by_content_None[of mems c] by (simp add: map_of_by_content)

lemma last_with_content: "last_with c mems = Some m \<Longrightarrow> content m = c"
  using get_by_content_key[of mems c m] by (simp add: map_of_by_content)

lemma upload_content_iff:
  "(\<exists>u \<in> set (fst (reconcile local remote)). content u = c) \<longleftrightarrow>
     c \<in> content ` set local \<and> (c \<notin> content ` set remote \<or> stale local remote c)"
proof (cases "last_with c local")
  case None
  then have "c \<notin> content ` set local" by (simp add: last_with_None)
  moreover have "\<not> (\<exists>u \<in> set (fst (reconcile local remote)). content u = c)"
    using None by (auto simp add: in_uploads map_of_by_content)
  ultimately show ?thesis by blast
next
  case (Some l)
  then have cl: "content l = c" by (rule last_with_content)
  from Some have inl: "c \<in> content ` set local"
    using last_with_None[of c local] by auto
  show ?thesis
  proof (cases "last_with c remote")
    case None
    then have "c \<notin> content ` set remote" by (simp add: last_with_None)
    moreover have "l \<in> set (fst (reconcile local remote))"
      using Some None cl by (simp add: in_uploads map_of_by_content)
    ultimately show ?thesis using cl inl by blast
  next
    case s: (Some s)
    then have inr: "c \<in> content ` set remote" using last_with_None[of c remote] by auto
    have "(\<exists>u \<in> set (fst (reconcile local remote)). content u = c) \<longleftrightarrow> created_at l < created_at s"
      using Some s cl by (auto simp add: in_uploads map_of_by_content)
    then show ?thesis using Some s inl inr by (simp add: stale_def)
  qed
qed

lemma delete_content_iff:
  "(\<exists>d \<in> set (snd (reconcile local remote)). content d = c) \<longleftrightarrow> stale local remote c"
proof (cases "last_with c remote")
  case None
  then show ?thesis
    by (auto simp add: in_deletions map_of_by_content stale_def split: option.splits)
next
  case (Some s)
  then have cs: "content s = c" by (rule last_with_content)
  show ?thesis
    using Some cs by (auto simp add: in_deletions map_of_by_content stale_def split: option.splits)
qed

lemma stale_matched: "stale local remote c \<Longrightarrow> c \<in> content ` set local"
  using last_with_None[of c local] by (auto simp add: stale_def split: option.splits)

text \<open>
  C2. Records are identified by their content, as \<open>Memory.__eq__\<close> does. A local
  record lands in the upload bucket (some upload has its content) exactly when
  its content is new (no remote record has it) or stale, and in the no-op
  bucket (no upload has its content) exactly when its content is matched and
  not stale. A remote record lands in the delete bucket exactly when its
  content is matched and stale, and in the no-op bucket exactly when it is
  unmatched or not stale; a remote record whose content no local record has
  is never in the deletions. The two conditions of each pair are complementary,
  so every record is in exactly one bucket. The records in the two lists are
  the ones retained by the content-keyed maps.
\<close>

theorem reconcile_partition:
  "(r \<in> set local \<longrightarrow>
      ((\<exists>u \<in> set (fst (reconcile local remote)). content u = content r) \<longleftrightarrow>
         content r \<notin> content ` set remote \<or> stale local remote (content r)) \<and>
      ((\<forall>u \<in> set (fst (reconcile local remote)). content u \<noteq> content r) \<longleftrightarrow>
         content r \<in> content ` set remote \<and> \<not> stale local remote (content r))) \<and>
   (s \<in> set remote \<longrightarrow>
      ((\<exists>d \<in> set (snd (reconcile local remote)). content d = content s) \<longleftrightarrow>
         content s \<in> content ` set local \<and> stale local remote (content s)) \<and>
      ((\<forall>d \<in> set (snd (reconcile local remote)). content d \<noteq> content s) \<longleftrightarrow>
         content s \<notin> content ` set local \<or> \<not> stale local remote (content s)) \<and>
      (content s \<notin> content ` set local \<longrightarrow> s \<notin> set (snd (reconcile local remote)))) \<and>
   (u \<in> set (fst (reconcile local remote)) \<longrightarrow> last_with (content u) local = Some u) \<and>
   (d \<in> set (snd (reconcile local remote)) \<longrightarrow> last_with (content d) remote = Some d)"
proof -
  have a: "r \<in> set local \<Longrightarrow>
      ((\<exists>u \<in> set (fst (reconcile local remote)). content u = content r) \<longleftrightarrow>
         content r \<notin> content ` set remote \<or> stale local remote (content r))"
    by (simp add: upload_content_iff)
  have b: "(\<exists>d \<in> set (snd (reconcile local remote)). content d = content s) \<longleftrightarrow>
         content s \<in> content ` set local \<and> stale local remote (content s)"
    using stale_matched[of local remote "content s"] by (auto simp add: delete_content_iff)
  have c: "u \<in> set (fst (reconcile local remote)) \<Longrightarrow> last_with (content u) local = Some u"
    by (simp add: in_uploads map_of_by_content)
  have d: "d \<in> set (snd (reconcile local remote)) \<Longrightarrow> last_with (content d) remote = Some d"
    by (simp add: in_deletions map_of_by_content)
  show ?thesis using a b c d by blast
qed

theorem reconcile_partition_witness:
  "(tea_local 50 \<in> set [tea_local 50] \<and>
    stale [tea_local 50] [tea_remote 100] (content (tea_local 50)) \<and>
    (\<exists>u \<in> set (fst (reconcile [tea_local 50] [tea_remote 100])).
        content u = content (tea_local 50)) \<and>
    tea_remote 100 \<in> set [tea_remote 100] \<and>
    (\<exists>d \<in> set (snd (reconcile [tea_local 50] [tea_remote 100])).
        content d = content (tea_remote 100))) \<and>
   (obsolete_remote \<in> set [obsolete_remote] \<and>
    content obsolete_remote \<notin> content ` set [] \<and>
    obsolete_remote \<notin> set (snd (reconcile [] [obsolete_remote])))"
proof -
  have a1: "stale [tea_local 50] [tea_remote 100] (content (tea_local 50))"
    by (simp add: stale_def last_with_def tea_local_def tea_remote_def)
  have a2: "stale [tea_local 50] [tea_remote 100] (content (tea_remote 100))"
    by (simp add: stale_def last_with_def tea_local_def tea_remote_def)
  have a3: "content (tea_remote 100) \<in> content ` set [tea_local 50]"
    by (simp add: tea_local_def tea_remote_def)
  have b1: "tea_local 50 \<in> set [tea_local 50]" by simp
  have b2: "tea_remote 100 \<in> set [tea_remote 100]" by simp
  have b3: "obsolete_remote \<in> set [obsolete_remote]" by simp
  have b4: "content obsolete_remote \<notin> content ` set []" by simp
  note p = reconcile_partition[of "tea_local 50" "[tea_local 50]" "[tea_remote 100]" "tea_remote 100"]
  note q = reconcile_partition[of _ "[]" "[obsolete_remote]" obsolete_remote]
  have u: "\<exists>u \<in> set (fst (reconcile [tea_local 50] [tea_remote 100])).
        content u = content (tea_local 50)"
    by (rule iffD2[OF p[THEN conjunct1, rule_format, OF b1, THEN conjunct1]])
       (rule disjI2, rule a1)
  have d: "\<exists>d \<in> set (snd (reconcile [tea_local 50] [tea_remote 100])).
        content d = content (tea_remote 100)"
    by (rule iffD2[OF p[THEN conjunct2, THEN conjunct1, rule_format, OF b2, THEN conjunct1]])
       (rule conjI, rule a3, rule a2)
  have n: "obsolete_remote \<notin> set (snd (reconcile [] [obsolete_remote]))"
    using q[THEN conjunct2, THEN conjunct1, rule_format, OF b3, THEN conjunct2, THEN conjunct2, rule_format, OF b4] .
  show ?thesis using a1 b1 b2 b3 b4 u d n by (intro conjI)
qed


section \<open>The fold, the state and record equality\<close>

text \<open>
  C6. The content-keyed map built from a list has distinct keys, its keys are
  exactly the contents of the list, so it has one entry per distinct content;
  the record kept for a content is the last one of the list with that content;
  and the keys stand in the order of their first occurrence. \<open>by_content\<close> is
  a function of the list alone: the same list gives the same map.
\<close>

theorem by_content_fold:
  "distinct (map fst (by_content mems)) \<and>
   set (map fst (by_content mems)) = content ` set mems \<and>
   length (by_content mems) = card (content ` set mems) \<and>
   map_of (by_content mems) c = last_with c mems \<and>
   map fst (by_content mems) = rev (remdups (rev (map content mems)))"
proof -
  have k: "set (map fst (by_content mems)) = content ` set mems"
    by (simp add: keys_by_content)
  have "card (fst ` set (by_content mems)) = length (by_content mems)"
    using distinct_card[OF distinct_by_content, of mems] by simp
  then have l: "length (by_content mems) = card (content ` set mems)"
    by (simp add: keys_by_content)
  have o: "map fst (by_content mems) = rev (remdups (rev (map content mems)))"
    by (simp add: by_content_def key_order_fold)
  show ?thesis using k l o by (simp add: distinct_by_content map_of_by_content)
qed

text \<open>
  C7. The block reads the two input lists and nothing else: two states that
  agree on them end with the same uploads and deletions, whatever the working
  variables held before. Neither input list is changed, and the result is the
  value of \<open>reconcile\<close> on the two lists.
\<close>

theorem reconcile_block_pure:
  assumes "all_memories st = all_memories st'"
    and "existing_server_memories st = existing_server_memories st'"
  shows "memories_to_upload (reconcile_block st) = memories_to_upload (reconcile_block st') \<and>
         memories_to_delete (reconcile_block st) = memories_to_delete (reconcile_block st') \<and>
         all_memories (reconcile_block st) = all_memories st \<and>
         existing_server_memories (reconcile_block st) = existing_server_memories st \<and>
         reconcile (all_memories st) (existing_server_memories st) =
           (memories_to_upload (reconcile_block st), memories_to_delete (reconcile_block st))"
  using assms
  by (simp add: reconcile_def reconcile_block_def Let_def split: prod.splits)

theorem reconcile_block_pure_witness:
  "all_memories dirty_state = all_memories clean_state \<and>
   existing_server_memories dirty_state = existing_server_memories clean_state \<and>
   dirty_state \<noteq> clean_state \<and>
   memories_to_upload (reconcile_block dirty_state) = memories_to_upload (reconcile_block clean_state) \<and>
   memories_to_delete (reconcile_block dirty_state) = memories_to_delete (reconcile_block clean_state) \<and>
   all_memories (reconcile_block dirty_state) = all_memories dirty_state \<and>
   existing_server_memories (reconcile_block dirty_state) = existing_server_memories dirty_state"
proof -
  have a: "all_memories dirty_state = all_memories clean_state"
    "existing_server_memories dirty_state = existing_server_memories clean_state"
    by (simp_all add: dirty_state_def clean_state_def)
  have b: "dirty_state \<noteq> clean_state"
    by (simp add: dirty_state_def clean_state_def)
  from reconcile_block_pure[OF a] a b show ?thesis by blast
qed

text \<open>
  C5. \<open>r1 == r2\<close> holds exactly when the two contents are equal; changing any of
  the other five fields of either record does not change the answer; a record
  never equals an object that is not a \<open>Memory\<close>; and equal records have equal
  hashes.
\<close>

theorem Memory_eq_content:
  "(Memory_eq r1 (Mem r2) \<longleftrightarrow> content r1 = content r2) \<and>
   Memory_eq (r1\<lparr>created_at := a1, updated_at := b1, weight := w1, model := m1, server_id := s1\<rparr>)
      (Mem (r2\<lparr>created_at := a2, updated_at := b2, weight := w2, model := m2, server_id := s2\<rparr>))
     = Memory_eq r1 (Mem r2) \<and>
   \<not> Memory_eq r1 (Other v) \<and>
   (Memory_eq r1 (Mem r2) \<longrightarrow> Memory_hash str_hash r1 = Memory_hash str_hash r2)"
  by (simp add: Memory_eq_def Memory_hash_def)


theorem Memory_eq_content_witness:
  "content (tea_local 50) = content (tea_remote 100) \<and>
   tea_local 50 \<noteq> tea_remote 100 \<and>
   Memory_eq (tea_local 50) (Mem (tea_remote 100)) \<and>
   Memory_hash (\<lambda>s. int (length s)) (tea_local 50) =
     Memory_hash (\<lambda>s. int (length s)) (tea_remote 100)"
proof -
  have a: "content (tea_local 50) = content (tea_remote 100)"
    by (simp add: tea_local_def tea_remote_def)
  have b: "tea_local 50 \<noteq> tea_remote 100"
    by (simp add: tea_local_def tea_remote_def)
  from a b Memory_eq_content[of "tea_local 50" "tea_remote 100" _ _ _ _ _ _ _ _ _ _ _ "\<lambda>s. int (length s)"]
  show ?thesis by blast
qed


section \<open>The extractor\<close>

lemmas eval_defs = process_conversation_def process_item_def bio_memory_def bind_exn_def
  time_field_def weight_field_def Memory_init_def validate_optional_def str_join_def
  bio_node_def example_lib_def example_clock_def fetch_open_webui_memories_def
  remote_memory_def

lemma bind_exn_Inr: "bind_exn r f = Inr y \<longleftrightarrow> (\<exists>x. r = Inr x \<and> f x = Inr y)"
  by (cases r) (simp_all add: bind_exn_def)

lemma validate_optional_None:
  "validate_optional validate v = Some None \<longleftrightarrow> v = PNone"
  by (simp add: validate_optional_def split: option.splits)

lemma Memory_init_Some:
  "Memory_init lib c ca ua w mo sid = Some m \<Longrightarrow>
     validate_str lib c = Some (content m) \<and>
     validate_optional (validate_str lib) sid = Some (server_id m)"
  by (auto simp add: Memory_init_def split: option.splits)

lemma bio_memory_Some:
  assumes "bio_memory lib clock t message = Inr (Some m, t')"
  shows "server_id m = None \<and>
         (\<exists>content_obj parts.
            dict_get message ''content'' (PDict []) = Inr content_obj \<and>
            dict_get content_obj ''parts'' (PList []) = Inr parts \<and>
            str_join [CHR 10] parts = Inr (content m))"
proof -
  from assms obtain content_obj parts memory_content ca ua w mo where
    a: "dict_get message ''content'' (PDict []) = Inr content_obj"
       "dict_get content_obj ''parts'' (PList []) = Inr parts"
       "str_join [CHR 10] parts = Inr memory_content"
       "Memory_init lib (PStr memory_content) ca ua w mo PNone = Some m"
    by (auto simp add: bio_memory_def bind_exn_Inr split: prod.splits)
  from Memory_init_Some[OF a(4)] have "content m = memory_content" "server_id m = None"
    by (simp_all add: validate_optional_def)
  with a show ?thesis by simp
qed

lemma process_item_Some:
  assumes "process_item lib clock t item = Inr (Some m, t')"
  shows "\<exists>message. dict_get (snd item) ''message'' PNone = Inr message \<and>
           dict_get message ''recipient'' PNone = Inr (PStr ''bio'') \<and>
           bio_memory lib clock t message = Inr (Some m, t')"
  using assms
  by (auto simp add: process_item_def Let_def bind_exn_Inr split: if_splits)

lemma process_items_origin:
  "process_items lib clock items (mems0, t) = Inr (mems, t') \<Longrightarrow> m \<in> set mems \<Longrightarrow>
     m \<in> set mems0 \<or> (\<exists>item \<in> set items. \<exists>t1 t2. process_item lib clock t1 item = Inr (Some m, t2))"
proof (induction items arbitrary: mems0 t)
  case Nil
  then show ?case by simp
next
  case (Cons item rest)
  show ?case
  proof (cases "process_item lib clock t item")
    case (Inl e)
    with Cons.prems show ?thesis by simp
  next
    case (Inr r)
    obtain mo t1 where r: "r = (mo, t1)" by (cases r)
    show ?thesis
    proof (cases mo)
      case None
      with Inr r Cons.prems have "process_items lib clock rest (mems0, t1) = Inr (mems, t')" by simp
      from Cons.IH[OF this Cons.prems(2)] show ?thesis by auto
    next
      case (Some m1)
      with Inr r Cons.prems have "process_items lib clock rest (mems0 @ [m1], t1) = Inr (mems, t')"
        by simp
      from Cons.IH[OF this Cons.prems(2)] Inr r Some show ?thesis by auto
    qed
  qed
qed

text \<open>
  C3, as amended. Every record in the extractor's output for a conversation has
  as content the parts of one of the conversation's messages to \<open>bio\<close>, joined
  by newlines. Nothing tests the content for emptiness, so the content is empty
  when that join is.
\<close>

theorem extracted_content_is_joined_parts:
  assumes "process_conversation lib clock t convo = Inr ((memories, n), t')"
    and "m \<in> set memories"
  shows "\<exists>mapping msg_id msg_data message content_obj parts.
           dict_get convo ''mapping'' (PDict []) = Inr (PDict mapping) \<and>
           (msg_id, msg_data) \<in> set mapping \<and>
           dict_get msg_data ''message'' PNone = Inr message \<and>
           dict_get message ''recipient'' PNone = Inr (PStr ''bio'') \<and>
           dict_get message ''content'' (PDict []) = Inr content_obj \<and>
           dict_get content_obj ''parts'' (PList []) = Inr parts \<and>
           str_join [CHR 10] parts = Inr (content m)"
proof -
  from assms(1) obtain mp items where
    a: "dict_get convo ''mapping'' (PDict []) = Inr mp" "dict_items mp = Inr items"
       "process_items lib clock items ([], t) = Inr (memories, t')"
    by (auto simp add: process_conversation_def bind_exn_Inr split: prod.splits)
  from a(2) have mp: "mp = PDict items" by (cases mp) simp_all
  from process_items_origin[OF a(3) assms(2)] obtain item t1 t2 where
    b: "item \<in> set items" "process_item lib clock t1 item = Inr (Some m, t2)" by auto
  from process_item_Some[OF b(2)] obtain message where
    c: "dict_get (snd item) ''message'' PNone = Inr message"
       "dict_get message ''recipient'' PNone = Inr (PStr ''bio'')"
       "bio_memory lib clock t1 message = Inr (Some m, t2)" by auto
  from bio_memory_Some[OF c(3)] obtain content_obj parts where
    d: "dict_get message ''content'' (PDict []) = Inr content_obj"
       "dict_get content_obj ''parts'' (PList []) = Inr parts"
       "str_join [CHR 10] parts = Inr (content m)" by auto
  from b(1) have "(fst item, snd item) \<in> set items" by simp
  with a(1) mp c d show ?thesis by blast
qed

theorem extracted_content_is_joined_parts_witness:
  "process_conversation example_lib example_clock 0 tea_convo = Inr (([tea_local 50], 1), 0) \<and>
   tea_local 50 \<in> set [tea_local 50] \<and>
   (\<exists>mapping msg_id msg_data message content_obj parts.
       dict_get tea_convo ''mapping'' (PDict []) = Inr (PDict mapping) \<and>
       (msg_id, msg_data) \<in> set mapping \<and>
       dict_get msg_data ''message'' PNone = Inr message \<and>
       dict_get message ''recipient'' PNone = Inr (PStr ''bio'') \<and>
       dict_get message ''content'' (PDict []) = Inr content_obj \<and>
       dict_get content_obj ''parts'' (PList []) = Inr parts \<and>
       str_join [CHR 10] parts = Inr (content (tea_local 50)))"
proof -
  have a: "process_conversation example_lib example_clock 0 tea_convo = Inr (([tea_local 50], 1), 0)"
    by (simp add: eval_defs tea_convo_def tea_local_def)
  have b: "tea_local 50 \<in> set [tea_local 50]" by simp
  from extracted_content_is_joined_parts[OF a b] a b show ?thesis by (intro conjI)
qed

text \<open>C3 as stated fails: a message to \<open>bio\<close> with no parts yields a record whose
  content is the empty string.\<close>

theorem empty_content_counterexample:
  "process_conversation example_lib example_clock 0 empty_parts_convo =
     Inr (([\<lparr>content = [], created_at = 1700000000, updated_at = 1700000001,
              weight = None, model = None, server_id = None\<rparr>], 1), 2)"
  by (simp add: eval_defs empty_parts_convo_def)

text \<open>
  C4. The second message of \<open>bad_time_convo\<close> has a \<open>create_time\<close> that \<open>int\<close>
  cannot convert. The \<open>ValueError\<close> is raised inside the \<open>try\<close> of line 85, which
  catches \<open>ValidationError\<close> only: the call ends with the exception and the
  record of the first message is lost with it.
\<close>

theorem uncoercible_time_aborts_conversation:
  "process_conversation example_lib example_clock 0 bad_time_convo = Inl ValueError"
  by (simp add: eval_defs bad_time_convo_def)

text \<open>The same for every library in which \<open>int\<close> rejects the string, as
  CPython's does.\<close>

lemma uncoercible_time_any_library:
  "str_to_int lib ''2024-05-01'' = None \<Longrightarrow>
     process_conversation lib clock t bad_time_convo = Inl ValueError"
  by (simp add: eval_defs bad_time_convo_def)

text \<open>What the handler does catch: a \<open>model_slug\<close> that is a list fails
  pydantic's validation, and only the record of that message is left out.\<close>

lemma validation_error_drops_one_record:
  "process_conversation lib clock t bad_model_convo =
     Inr (([\<lparr>content = ''likes tea'', created_at = 50, updated_at = 50, weight = None,
              model = None, server_id = None\<rparr>,
            \<lparr>content = ''owns'' @ [CHR 10] @ ''a bike'', created_at = 70, updated_at = 70,
              weight = None, model = None, server_id = None\<rparr>], 3), t)"
  by (simp add: eval_defs bad_model_convo_def)

section \<open>Where \<open>server_id\<close> comes from\<close>

lemma extracted_server_id:
  assumes "process_conversation lib clock t convo = Inr ((memories, n), t')"
    and "m \<in> set memories"
  shows "server_id m = None"
proof -
  from assms(1) obtain items where
    a: "process_items lib clock items ([], t) = Inr (memories, t')"
    by (auto simp add: process_conversation_def bind_exn_Inr split: prod.splits)
  from process_items_origin[OF a assms(2)] obtain item t1 t2 where
    b: "process_item lib clock t1 item = Inr (Some m, t2)" by auto
  from process_item_Some[OF b] obtain message where
    "bio_memory lib clock t1 message = Inr (Some m, t2)" by auto
  from bio_memory_Some[OF this] show ?thesis by simp
qed

lemma remote_memory_origin:
  assumes "remote_memory lib clock t obj = Inr (Some m, t')"
  shows "\<exists>content_val id_val.
           subscript obj ''content'' = Inr content_val \<and>
           validate_str lib content_val = Some (content m) \<and>
           dict_get obj ''id'' PNone = Inr id_val \<and>
           validate_optional (validate_str lib) id_val = Some (server_id m)"
proof (cases "subscript obj ''content''")
  case (Inl e)
  with assms show ?thesis by (simp add: remote_memory_def split: if_splits)
next
  case (Inr content_val)
  with assms obtain ca ua w mo id_val where
    a: "dict_get obj ''id'' PNone = Inr id_val"
       "Memory_init lib content_val ca ua w mo id_val = Some m"
    by (auto simp add: remote_memory_def bind_exn_Inr)
  from Memory_init_Some[OF a(2)] a(1) Inr show ?thesis by simp
qed

lemma remote_memory_id:
  assumes "remote_memory lib clock t obj = Inr (Some m, t')"
  shows "\<exists>content_val id_val.
           subscript obj ''content'' = Inr content_val \<and>
           validate_str lib content_val = Some (content m) \<and>
           dict_get obj ''id'' PNone = Inr id_val \<and>
           (server_id m = None \<longleftrightarrow> id_val = PNone) \<and>
           (\<forall>s. id_val = PStr s \<longrightarrow> server_id m = Some s)"
proof -
  from remote_memory_origin[OF assms] obtain content_val id_val where
    d: "subscript obj ''content'' = Inr content_val"
       "validate_str lib content_val = Some (content m)"
       "dict_get obj ''id'' PNone = Inr id_val"
       "validate_optional (validate_str lib) id_val = Some (server_id m)" by auto
  from d(4) have e: "server_id m = None \<longleftrightarrow> id_val = PNone"
    using validate_optional_None[of "validate_str lib" id_val] by auto
  from d(4) have f: "\<forall>s. id_val = PStr s \<longrightarrow> server_id m = Some s"
    by (auto simp add: validate_optional_def)
  show ?thesis
    by (rule exI[where x=content_val], rule exI[where x=id_val]) (simp add: d(1,2,3) e f)
qed

lemma remote_loop_origin:
  "remote_loop lib clock objs (mems0, t) = Inr (mems, t') \<Longrightarrow> m \<in> set mems \<Longrightarrow>
     m \<in> set mems0 \<or> (\<exists>obj \<in> set objs. \<exists>t1 t2. remote_memory lib clock t1 obj = Inr (Some m, t2))"
proof (induction objs arbitrary: mems0 t)
  case Nil
  then show ?case by simp
next
  case (Cons obj rest)
  show ?case
  proof (cases "remote_memory lib clock t obj")
    case (Inl e)
    with Cons.prems show ?thesis by simp
  next
    case (Inr r)
    obtain mo t1 where r: "r = (mo, t1)" by (cases r)
    show ?thesis
    proof (cases mo)
      case None
      with Inr r Cons.prems have "remote_loop lib clock rest (mems0, t1) = Inr (mems, t')" by simp
      from Cons.IH[OF this Cons.prems(2)] show ?thesis by auto
    next
      case (Some m1)
      with Inr r Cons.prems have "remote_loop lib clock rest (mems0 @ [m1], t1) = Inr (mems, t')"
        by simp
      from Cons.IH[OF this Cons.prems(2)] Inr r Some show ?thesis by auto
    qed
  qed
qed

text \<open>
  C8, as amended. Every record produced by extraction has no \<open>server_id\<close>.
  Every record that the fetch returns was produced from an object of the
  response body, and a record takes its \<open>server_id\<close> from the \<open>id\<close> of the
  very object it was produced from: none exactly when that object has no \<open>id\<close>
  or a null one, and the \<open>id\<close> itself when that is a string. The record's
  content is the validated \<open>content\<close> of the same object.
\<close>

theorem server_id_follows_origin:
  "(process_conversation lib clock t convo = Inr ((memories, n), t') \<longrightarrow>
      m \<in> set memories \<longrightarrow> server_id m = None) \<and>
   (fetch_open_webui_memories lib clock t body = Inr (remote, t'') \<longrightarrow> r \<in> set remote \<longrightarrow>
      (\<exists>objs obj t1 t2 content_val id_val.
          py_iter body = Inr objs \<and> obj \<in> set objs \<and>
          remote_memory lib clock t1 obj = Inr (Some r, t2) \<and>
          subscript obj ''content'' = Inr content_val \<and>
          validate_str lib content_val = Some (content r) \<and>
          dict_get obj ''id'' PNone = Inr id_val \<and>
          (server_id r = None \<longleftrightarrow> id_val = PNone) \<and>
          (\<forall>s. id_val = PStr s \<longrightarrow> server_id r = Some s))) \<and>
   (remote_memory lib clock u1 obj' = Inr (Some r', u2) \<longrightarrow>
      (\<exists>content_val id_val.
          subscript obj' ''content'' = Inr content_val \<and>
          validate_str lib content_val = Some (content r') \<and>
          dict_get obj' ''id'' PNone = Inr id_val \<and>
          (server_id r' = None \<longleftrightarrow> id_val = PNone) \<and>
          (\<forall>s. id_val = PStr s \<longrightarrow> server_id r' = Some s)))"
proof (intro conjI impI)
  assume "process_conversation lib clock t convo = Inr ((memories, n), t')" "m \<in> set memories"
  then show "server_id m = None" by (rule extracted_server_id)
next
  assume a: "fetch_open_webui_memories lib clock t body = Inr (remote, t'')" "r \<in> set remote"
  from a(1) obtain objs where
    b: "py_iter body = Inr objs" "remote_loop lib clock objs ([], t) = Inr (remote, t'')"
    by (auto simp add: fetch_open_webui_memories_def split: sum.splits)
  from remote_loop_origin[OF b(2) a(2)] obtain obj t1 t2 where
    c: "obj \<in> set objs" "remote_memory lib clock t1 obj = Inr (Some r, t2)" by auto
  from remote_memory_id[OF c(2)] obtain content_val id_val where
    d: "subscript obj ''content'' = Inr content_val"
       "validate_str lib content_val = Some (content r)"
       "dict_get obj ''id'' PNone = Inr id_val"
       "server_id r = None \<longleftrightarrow> id_val = PNone"
       "\<forall>s. id_val = PStr s \<longrightarrow> server_id r = Some s" by auto
  show "\<exists>objs obj t1 t2 content_val id_val.
          py_iter body = Inr objs \<and> obj \<in> set objs \<and>
          remote_memory lib clock t1 obj = Inr (Some r, t2) \<and>
          subscript obj ''content'' = Inr content_val \<and>
          validate_str lib content_val = Some (content r) \<and>
          dict_get obj ''id'' PNone = Inr id_val \<and>
          (server_id r = None \<longleftrightarrow> id_val = PNone) \<and>
          (\<forall>s. id_val = PStr s \<longrightarrow> server_id r = Some s)"
    by (rule exI[where x=objs], rule exI[where x=obj], rule exI[where x=t1],
        rule exI[where x=t2], rule exI[where x=content_val], rule exI[where x=id_val])
       (simp add: b(1) c d)
next
  assume "remote_memory lib clock u1 obj' = Inr (Some r', u2)"
  then show "\<exists>content_val id_val.
          subscript obj' ''content'' = Inr content_val \<and>
          validate_str lib content_val = Some (content r') \<and>
          dict_get obj' ''id'' PNone = Inr id_val \<and>
          (server_id r' = None \<longleftrightarrow> id_val = PNone) \<and>
          (\<forall>s. id_val = PStr s \<longrightarrow> server_id r' = Some s)"
    by (rule remote_memory_id)
qed

theorem server_id_follows_origin_witness:
  "process_conversation example_lib example_clock 0 tea_convo = Inr (([tea_local 50], 1), 0) \<and>
   tea_local 50 \<in> set [tea_local 50] \<and>
   server_id (tea_local 50) = None \<and>
   fetch_open_webui_memories example_lib example_clock 0 remote_two_objects =
     Inr ([tea_remote 100, obsolete_remote], 4) \<and>
   obsolete_remote \<in> set [tea_remote 100, obsolete_remote] \<and>
   (\<exists>objs obj t1 t2 content_val id_val.
       py_iter remote_two_objects = Inr objs \<and> obj \<in> set objs \<and>
       remote_memory example_lib example_clock t1 obj = Inr (Some obsolete_remote, t2) \<and>
       subscript obj ''content'' = Inr content_val \<and>
       validate_str example_lib content_val = Some (content obsolete_remote) \<and>
       dict_get obj ''id'' PNone = Inr id_val \<and>
       (server_id obsolete_remote = None \<longleftrightarrow> id_val = PNone) \<and>
       (\<forall>s. id_val = PStr s \<longrightarrow> server_id obsolete_remote = Some s)) \<and>
   remote_memory example_lib example_clock 2 obsolete_object = Inr (Some obsolete_remote, 4) \<and>
   (\<exists>content_val id_val.
       subscript obsolete_object ''content'' = Inr content_val \<and>
       validate_str example_lib content_val = Some (content obsolete_remote) \<and>
       dict_get obsolete_object ''id'' PNone = Inr id_val \<and>
       (server_id obsolete_remote = None \<longleftrightarrow> id_val = PNone) \<and>
       (\<forall>s. id_val = PStr s \<longrightarrow> server_id obsolete_remote = Some s))"
proof -
  have a: "process_conversation example_lib example_clock 0 tea_convo = Inr (([tea_local 50], 1), 0)"
    by (simp add: eval_defs tea_convo_def tea_local_def)
  have b: "tea_local 50 \<in> set [tea_local 50]" by simp
  have c: "fetch_open_webui_memories example_lib example_clock 0 remote_two_objects =
             Inr ([tea_remote 100, obsolete_remote], 4)"
    by (simp add: eval_defs remote_two_objects_def tea_object_def obsolete_object_def
          tea_remote_def obsolete_remote_def)
  have d: "obsolete_remote \<in> set [tea_remote 100, obsolete_remote]" by simp
  have g: "remote_memory example_lib example_clock 2 obsolete_object = Inr (Some obsolete_remote, 4)"
    by (simp add: eval_defs obsolete_object_def obsolete_remote_def)
  note e = server_id_follows_origin[THEN conjunct1, rule_format, OF a b]
  note f = server_id_follows_origin[THEN conjunct2, THEN conjunct1, rule_format, OF c d]
  note h = server_id_follows_origin[THEN conjunct2, THEN conjunct2, rule_format, OF g]
  from a b c d e f g h show ?thesis by (intro conjI)
qed

text \<open>C8 as stated fails: a remote object without an \<open>id\<close> gives a record
  without a \<open>server_id\<close>.\<close>

theorem remote_without_id_counterexample:
  "fetch_open_webui_memories example_lib example_clock 0 remote_without_id =
     Inr ([\<lparr>content = ''likes tea'', created_at = 100, updated_at = 100,
             weight = None, model = None, server_id = None\<rparr>], 2)"
  by (simp add: eval_defs remote_without_id_def)

end
